theory Spec2Isabelle
  imports Complex_Main
begin

section \<open>Data model of the image renderer\<close>

text \<open>
  The renderer of \<^verbatim>\<open>src/view/ImageRenderer.cpp\<close> keeps one GPU texture per open image
  and draws the current image as a textured quad. The C++ \<^verbatim>\<open>float\<close> values are taken
  as real numbers: arithmetic is exact, rounding, overflow, infinities and NaN are not
  part of the model, and a division by zero, which gives an infinity or NaN in
  \<^verbatim>\<open>float\<close>, gives 0.
\<close>

subsection \<open>Images and shared pointers\<close>

text \<open>
  An \<^verbatim>\<open>Image\<close> exposes \<^verbatim>\<open>width()\<close>, \<^verbatim>\<open>height()\<close>, \<^verbatim>\<open>channels()\<close> and \<^verbatim>\<open>data()\<close>.
\<close>

record Image =
  width :: int
  height :: int
  channels :: int
  data :: "real list"

text \<open>
  A \<^verbatim>\<open>std::shared_ptr<T>\<close> is either null or holds the address of a live object; the
  object travels with the pointer. Two shared pointers compare equal when their
  addresses are equal (\<open>get\<close>), whatever they point to, as \<^verbatim>\<open>operator==\<close> does.
\<close>

datatype 'a shared_ptr = Null | Ptr nat 'a

fun get :: "'a shared_ptr \<Rightarrow> nat option" where
  "get Null = None"
| "get (Ptr a obj) = Some a"

text \<open>
  An \<^verbatim>\<open>ImageDocument\<close> is used through \<^verbatim>\<open>image()\<close> only. The document pointers of the
  list handed to \<open>updateImages\<close> are taken to be valid.
\<close>

record ImageDocument =
  doc_image :: "Image shared_ptr"

subsection \<open>Qt value types\<close>

datatype QVector2D = QVector2D (xp: real) (yp: real)

definition vec_minus :: "QVector2D \<Rightarrow> QVector2D \<Rightarrow> QVector2D" where
  "vec_minus a b = QVector2D (xp a - xp b) (yp a - yp b)"

definition vec_plus :: "QVector2D \<Rightarrow> QVector2D \<Rightarrow> QVector2D" where
  "vec_plus a b = QVector2D (xp a + xp b) (yp a + yp b)"

definition vec_div_scalar :: "QVector2D \<Rightarrow> real \<Rightarrow> QVector2D" where
  "vec_div_scalar a d = QVector2D (xp a / d) (yp a / d)"

definition vec_div :: "QVector2D \<Rightarrow> QVector2D \<Rightarrow> QVector2D" where
  "vec_div a b = QVector2D (xp a / xp b) (yp a / yp b)"

record QColor =
  red :: int
  green :: int
  blue :: int

record RenderRegion =
  region_offset :: "int \<times> int"
  region_size :: "int \<times> int"

record Settings =
  position :: QVector2D
  scale :: real
  gamma :: real

subsection \<open>Textures\<close>

datatype TextureFormat = RGBFormat | RGBAFormat

datatype PixelFormat = RGB | RGBA

datatype Filter = Linear | LinearMipMapLinear

datatype WrapMode = Repeat | ClampToBorder

text \<open>
  A \<^verbatim>\<open>QOpenGLTexture\<close> object. \<open>textureId\<close> is the identity of the object: every
  \<^verbatim>\<open>std::make_unique<QOpenGLTexture>\<close> yields a new one.
\<close>

record QOpenGLTexture =
  textureId :: nat
  tex_size :: "int \<times> int"
  tex_format :: TextureFormat
  storage :: "PixelFormat option"
  tex_data :: "(PixelFormat \<times> real list) option"
  minificationFilter :: Filter
  magnificationFilter :: Filter
  wrapMode :: WrapMode
  mipMaps :: bool
  borderColor :: "QColor option"
  boundUnit :: "nat option"

definition format :: "Image \<Rightarrow> TextureFormat" where
  "format img = (if channels img = 3 then RGBFormat else RGBAFormat)"

definition pixelFormat :: "Image \<Rightarrow> PixelFormat" where
  "pixelFormat img = (if channels img = 3 then RGB else RGBA)"

text \<open>
  \<open>createTexture\<close>; the first argument is the identity of the new texture object.
\<close>

definition createTexture :: "nat \<Rightarrow> Image \<Rightarrow> QOpenGLTexture" where
  "createTexture n img =
     \<lparr> textureId = n,
       tex_size = (width img, height img),
       tex_format = format img,
       storage = Some (pixelFormat img),
       tex_data = Some (pixelFormat img, data img),
       minificationFilter = LinearMipMapLinear,
       magnificationFilter = Linear,
       wrapMode = ClampToBorder,
       mipMaps = True,
       borderColor = None,
       boundUnit = None \<rparr>"

subsection \<open>Transform of the quad\<close>

definition texturePosition :: "QVector2D \<Rightarrow> QVector2D \<Rightarrow> QVector2D \<Rightarrow> QVector2D" where
  "texturePosition regionSize imageSize imagePosition =
     (let offset = vec_div_scalar (vec_minus regionSize imageSize) 2
      in vec_div (vec_plus offset (QVector2D (- xp imagePosition) (yp imagePosition)))
           regionSize)"

definition textureScale :: "QVector2D \<Rightarrow> QVector2D \<Rightarrow> QVector2D" where
  "textureScale regionSize imageSize = vec_div imageSize regionSize"

subsection \<open>Shader program\<close>

datatype ShaderType = Vertex | Fragment

text \<open>
  A \<^verbatim>\<open>QOpenGLShaderProgram\<close> object: its identity, what was attached and linked, whether
  it is bound, the vertex attribute array 0 and the values of the four uniforms (zero
  until set).
\<close>

record QOpenGLShaderProgram =
  programId :: nat
  shaders :: "ShaderType list"
  attributeLocations :: "(string \<times> nat) list"
  linked :: bool
  bound :: bool
  attributeArrayEnabled :: bool
  attributeArray :: "(real list \<times> nat) option"
  uniform_tex :: int
  uniform_position :: QVector2D
  uniform_scale :: QVector2D
  uniform_gamma :: real

definition vertexData :: "real list" where
  "vertexData = [-1, -1, 1, -1, -1, 1, 1, 1]"

text \<open>
  \<open>createProgram\<close>; the argument is the identity of the new program object.
\<close>

definition createProgram :: "nat \<Rightarrow> QOpenGLShaderProgram" where
  "createProgram n =
     \<lparr> programId = n,
       shaders = [Vertex, Fragment],
       attributeLocations = [(''vertices'', 0)],
       linked = True,
       bound = False,
       attributeArrayEnabled = False,
       attributeArray = None,
       uniform_tex = 0,
       uniform_position = QVector2D 0 0,
       uniform_scale = QVector2D 0 0,
       uniform_gamma = 0 \<rparr>"

subsection \<open>The OpenGL context\<close>

text \<open>
  What \<open>paint\<close> does to the context: viewport, depth test, clear colour, and one entry
  per \<^verbatim>\<open>glDrawArrays\<close> call holding the program and the texture as they are bound at
  that moment.
\<close>

datatype DrawMode = TriangleStrip

record DrawCall =
  draw_mode :: DrawMode
  draw_first :: nat
  draw_count :: nat
  draw_program :: QOpenGLShaderProgram
  draw_texture :: QOpenGLTexture

record GLContext =
  viewport :: "int \<times> int \<times> int \<times> int"
  depthTest :: bool
  clearColor :: "real \<times> real \<times> real \<times> real"
  clears :: nat
  draws :: "DrawCall list"

subsection \<open>The renderer\<close>

text \<open>
  The members of \<^verbatim>\<open>ImageRenderer\<close>; the member \<^verbatim>\<open>current_\<close> is the field
  \<open>current_m\<close>, and so on. \<open>textures_m\<close> maps the address held by a
  \<^verbatim>\<open>shared_ptr<Image>\<close> key (\<open>None\<close> for the null pointer) to a
  \<^verbatim>\<open>unique_ptr<QOpenGLTexture>\<close>, which is \<open>None\<close> when null. \<open>texturesCreated\<close> and
  \<open>programsCreated\<close> count the texture and program objects the renderer has created
  so far and name the next object; \<open>glContext\<close> is the OpenGL context it draws into.
\<close>

record ImageRenderer =
  current_m :: "Image shared_ptr"
  textures_m :: "nat option \<rightharpoonup> QOpenGLTexture option"
  program_m :: "QOpenGLShaderProgram option"
  renderRegion_m :: RenderRegion
  settings_m :: Settings
  clearColor_m :: QColor
  functionsInitialized :: bool
  texturesCreated :: nat
  programsCreated :: nat
  glContext :: GLContext

text \<open>
  Dereferencing a null smart pointer is undefined behaviour. The model stops there and
  returns the fault together with the renderer as it is at that point.
\<close>

datatype fault = NullImageDereference | NullTextureDereference

type_synonym result = "(fault \<times> ImageRenderer) + ImageRenderer"

fun state_of :: "result \<Rightarrow> ImageRenderer" where
  "state_of (Inl (f, r)) = r"
| "state_of (Inr r) = r"

text \<open>
  \<^verbatim>\<open>operator[]\<close> of the map: a key that is absent is inserted with a null value.
\<close>

definition subscript :: "('k \<rightharpoonup> 'v option) \<Rightarrow> 'k \<Rightarrow> ('k \<rightharpoonup> 'v option) \<times> 'v option" where
  "subscript m k = (case m k of None \<Rightarrow> (m(k \<mapsto> None), None) | Some v \<Rightarrow> (m, v))"

definition setCurrent :: "Image shared_ptr \<Rightarrow> ImageRenderer \<Rightarrow> ImageRenderer" where
  "setCurrent img r = r\<lparr>current_m := img\<rparr>"

subsection \<open>updateImages\<close>

definition matchImage :: "nat option \<Rightarrow> ImageDocument \<Rightarrow> bool" where
  "matchImage key doc = (get (doc_image doc) = key)"

text \<open>
  The first loop visits every entry of the map and erases it when \<^verbatim>\<open>find_if\<close> finds
  no document with that image.
\<close>

definition erase_unreferenced ::
  "ImageDocument list \<Rightarrow> (nat option \<rightharpoonup> 'v) \<Rightarrow> (nat option \<rightharpoonup> 'v)" where
  "erase_unreferenced images m =
     (\<lambda>key. if find (matchImage key) images = None then None else m key)"

text \<open>
  The second loop. \<^verbatim>\<open>textures_[doc->image()]\<close> yields the slot of the image, inserting a
  null one when there is none; a null slot is filled with a new texture of the image.
\<close>

fun create_textures :: "ImageDocument list \<Rightarrow> ImageRenderer \<Rightarrow> result" where
  "create_textures [] r = Inr r"
| "create_textures (doc # rest) r =
     (let (m, tex) = subscript (textures_m r) (get (doc_image doc));
          r1 = r\<lparr>textures_m := m\<rparr>
      in if tex = None then
           (case doc_image doc of
              Null \<Rightarrow> Inl (NullImageDereference, r1)
            | Ptr a img \<Rightarrow>
                create_textures rest
                  (r1\<lparr>textures_m := m(Some a \<mapsto> Some (createTexture (texturesCreated r1) img)),
                      texturesCreated := Suc (texturesCreated r1)\<rparr>))
         else create_textures rest r1)"

definition updateImages :: "ImageDocument list \<Rightarrow> ImageRenderer \<Rightarrow> result" where
  "updateImages images r =
     create_textures images (r\<lparr>textures_m := erase_unreferenced images (textures_m r)\<rparr>)"

subsection \<open>paint\<close>

definition paint :: "ImageRenderer \<Rightarrow> result" where
  "paint r0 =
     (let (program, r) =
            (case program_m r0 of
               None \<Rightarrow>
                 (createProgram (programsCreated r0),
                  r0\<lparr>functionsInitialized := True,
                      programsCreated := Suc (programsCreated r0)\<rparr>)
             | Some p \<Rightarrow> (p, r0));
          p1 = program\<lparr>bound := True, attributeArrayEnabled := True,
                       attributeArray := Some (vertexData, 2)\<rparr>;
          r1 = r\<lparr>program_m := Some p1\<rparr>
      in case current_m r1 of
           Null \<Rightarrow> Inl (NullImageDereference, r1)
         | Ptr a img \<Rightarrow>
             (let (m, slot) = subscript (textures_m r1) (Some a);
                  r2 = r1\<lparr>textures_m := m\<rparr>
              in case slot of
                   None \<Rightarrow> Inl (NullTextureDereference, r2)
                 | Some texture \<Rightarrow>
                     (let region = renderRegion_m r2;
                          regionSize = QVector2D (real_of_int (fst (region_size region)))
                                                 (real_of_int (snd (region_size region)));
                          imageSize = QVector2D (real_of_int (width img) * scale (settings_m r2))
                                                (real_of_int (height img) * scale (settings_m r2));
                          t1 = texture\<lparr>borderColor := Some (clearColor_m r2), boundUnit := Some 0\<rparr>;
                          p2 = p1\<lparr>uniform_tex := 0,
                                  uniform_position :=
                                    texturePosition regionSize imageSize (position (settings_m r2)),
                                  uniform_scale := textureScale regionSize imageSize,
                                  uniform_gamma := 1 / gamma (settings_m r2)\<rparr>;
                          g1 = (glContext r2)
                                 \<lparr>viewport := (fst (region_offset region), snd (region_offset region),
                                               fst (region_size region), snd (region_size region)),
                                  depthTest := False,
                                  clearColor := (real_of_int (red (clearColor_m r2)),
                                                 real_of_int (green (clearColor_m r2)),
                                                 real_of_int (blue (clearColor_m r2)), 1),
                                  clears := Suc (clears (glContext r2))\<rparr>;
                          g2 = g1\<lparr>draws := draws g1 @
                                   [\<lparr>draw_mode = TriangleStrip, draw_first = 0, draw_count = 4,
                                     draw_program = p2, draw_texture = t1\<rparr>]\<rparr>;
                          t2 = t1\<lparr>boundUnit := None\<rparr>;
                          p3 = p2\<lparr>attributeArrayEnabled := False, bound := False\<rparr>
                      in Inr (r2\<lparr>textures_m := m(Some a \<mapsto> Some t2),
                                 program_m := Some p3,
                                 glContext := g2\<rparr>))))"

subsection \<open>Sequences of calls\<close>

datatype call = SetCurrent "Image shared_ptr" | UpdateImages "ImageDocument list" | Paint

fun call_step :: "call \<Rightarrow> ImageRenderer \<Rightarrow> result" where
  "call_step (SetCurrent img) r = Inr (setCurrent img r)"
| "call_step (UpdateImages images) r = updateImages images r"
| "call_step Paint r = paint r"

text \<open>A sequence of calls on one renderer ends at the first fault.\<close>

fun run :: "call list \<Rightarrow> ImageRenderer \<Rightarrow> result" where
  "run [] r = Inr r"
| "run (c # cs) r = (case call_step c r of Inl e \<Rightarrow> Inl e | Inr r' \<Rightarrow> run cs r')"

subsection \<open>The shaders\<close>

text \<open>
  The two GLSL programs \<^verbatim>\<open>vertexSource\<close> and \<^verbatim>\<open>fragmentSource\<close>, with the GLSL
  vector operations they use (componentwise, a scalar operand applied to every
  component).
\<close>

datatype vec2 = vec2 (vx: real) (vy: real)

datatype vec3 = vec3 real real real

datatype vec4 = vec4 real real real real

definition vec2_times_scalar :: "vec2 \<Rightarrow> real \<Rightarrow> vec2" where
  "vec2_times_scalar v s = vec2 (vx v * s) (vy v * s)"

definition vec2_plus_scalar :: "vec2 \<Rightarrow> real \<Rightarrow> vec2" where
  "vec2_plus_scalar v s = vec2 (vx v + s) (vy v + s)"

definition vec2_minus :: "vec2 \<Rightarrow> vec2 \<Rightarrow> vec2" where
  "vec2_minus a b = vec2 (vx a - vx b) (vy a - vy b)"

definition vec2_div :: "vec2 \<Rightarrow> vec2 \<Rightarrow> vec2" where
  "vec2_div a b = vec2 (vx a / vx b) (vy a / vy b)"

fun swizzle_xyz :: "vec4 \<Rightarrow> vec3" where
  "swizzle_xyz (vec4 x y z w) = vec3 x y z"

fun swizzle_w :: "vec4 \<Rightarrow> real" where
  "swizzle_w (vec4 x y z w) = w"

fun vec4_of :: "vec3 \<Rightarrow> real \<Rightarrow> vec4" where
  "vec4_of (vec3 x y z) w = vec4 x y z w"

text \<open>
  GLSL \<^verbatim>\<open>pow\<close> on vectors works componentwise; on a negative base its result is
  undefined in GLSL and unspecified here.
\<close>

fun pow :: "vec3 \<Rightarrow> vec3 \<Rightarrow> vec3" where
  "pow (vec3 x y z) (vec3 a b c) = vec3 (x powr a) (y powr b) (z powr c)"

text \<open>
  The vertex shader: from the attribute \<^verbatim>\<open>vertices\<close> to \<^verbatim>\<open>gl_Position\<close> and the
  varying \<^verbatim>\<open>coords\<close>.
\<close>

definition vertex_main :: "vec2 \<Rightarrow> vec4 \<times> vec2" where
  "vertex_main vertices =
     (vec4 (vx vertices) (vy vertices) 0 1,
      vec2_plus_scalar (vec2_times_scalar vertices 0.5) 0.5)"

text \<open>
  The fragment shader: from the sampler of the bound texture, the uniforms \<^verbatim>\<open>position\<close>,
  \<^verbatim>\<open>scale\<close> and \<^verbatim>\<open>gamma\<close> and the varying \<^verbatim>\<open>coords\<close> to \<^verbatim>\<open>gl_FragColor\<close>.
\<close>

definition fragment_main :: "(vec2 \<Rightarrow> vec4) \<Rightarrow> vec2 \<Rightarrow> vec2 \<Rightarrow> real \<Rightarrow> vec2 \<Rightarrow> vec4" where
  "fragment_main tex position_u scale_u gamma_u coords =
     (let texel = tex (vec2_div (vec2_minus coords position_u) scale_u);
          color = pow (swizzle_xyz texel) (vec3 gamma_u gamma_u gamma_u)
      in vec4_of color (swizzle_w texel))"

text \<open>
  The attribute array is read in tuples of two floats; \<^verbatim>\<open>glDrawArrays\<close> draws
  \<open>count\<close> of them starting at \<open>first\<close>.
\<close>

fun tuples2 :: "real list \<Rightarrow> vec2 list" where
  "tuples2 (a # b # rest) = vec2 a b # tuples2 rest"
| "tuples2 rest = []"

definition drawn_vertices :: "nat \<Rightarrow> nat \<Rightarrow> real list \<Rightarrow> vec2 list" where
  "drawn_vertices first count array = take count (drop first (tuples2 array))"

section \<open>Notions used by the properties\<close>

text \<open>The image identities that the documents of a list refer to.\<close>

definition referenced :: "ImageDocument list \<Rightarrow> nat option set" where
  "referenced images = (\<lambda>doc. get (doc_image doc)) ` set images"

text \<open>An image identity is cached when the map holds a texture, not null, for it.\<close>

definition cached :: "ImageRenderer \<Rightarrow> nat option \<Rightarrow> bool" where
  "cached r key = (case textures_m r key of Some (Some t) \<Rightarrow> True | _ \<Rightarrow> False)"

text \<open>
  Which texture object each key of the map is bound to: key to \<open>None\<close> for a null
  entry, to the identity of the texture object otherwise.
\<close>

definition texture_ids :: "ImageRenderer \<Rightarrow> (nat option \<rightharpoonup> nat option)" where
  "texture_ids r = (\<lambda>key. map_option (map_option textureId) (textures_m r key))"

text \<open>
  What \<open>createProgram\<close> settles of a program object: its identity, the shaders compiled
  and attached, the attribute locations bound and whether it has been linked.
\<close>

definition built ::
  "QOpenGLShaderProgram \<Rightarrow> nat \<times> ShaderType list \<times> (string \<times> nat) list \<times> bool" where
  "built p = (programId p, shaders p, attributeLocations p, linked p)"

text \<open>A call keeps the entry of a key unless it is an \<open>updateImages\<close> that no longer refers to it.\<close>

fun keeps :: "nat option \<Rightarrow> call \<Rightarrow> bool" where
  "keeps key (UpdateImages images) = (find (matchImage key) images \<noteq> None)"
| "keeps key c = True"

subsection \<open>Sample values\<close>

definition sample_image :: Image where
  "sample_image = \<lparr> width = 400, height = 600, channels = 3, data = replicate (400 * 600 * 3) 0 \<rparr>"

definition other_image :: Image where
  "other_image = \<lparr> width = 1, height = 1, channels = 4, data = [1, 1, 1, 1] \<rparr>"

definition sample_context :: GLContext where
  "sample_context =
     \<lparr> viewport = (0, 0, 0, 0), depthTest = True, clearColor = (0, 0, 0, 0),
       clears = 0, draws = [] \<rparr>"

text \<open>A renderer that has never painted and has no texture; the current image is at address 1.\<close>

definition sample_renderer :: ImageRenderer where
  "sample_renderer =
     \<lparr> current_m = Ptr 1 sample_image,
       textures_m = Map.empty,
       program_m = None,
       renderRegion_m = \<lparr> region_offset = (0, 0), region_size = (800, 600) \<rparr>,
       settings_m = \<lparr> position = QVector2D 0 0, scale = 1, gamma = 2 \<rparr>,
       clearColor_m = \<lparr> red = 0, green = 0, blue = 0 \<rparr>,
       functionsInitialized = False,
       texturesCreated = 0,
       programsCreated = 0,
       glContext = sample_context \<rparr>"

text \<open>Two documents, of the images at addresses 1 and 2.\<close>

definition sample_documents :: "ImageDocument list" where
  "sample_documents =
     [\<lparr> doc_image = Ptr 1 sample_image \<rparr>, \<lparr> doc_image = Ptr 2 other_image \<rparr>]"

text \<open>The same renderer holding one texture, of an image at address 7 that no document has.\<close>

definition stale_renderer :: ImageRenderer where
  "stale_renderer =
     sample_renderer\<lparr>textures_m := [Some 7 \<mapsto> Some (createTexture 0 other_image)],
                     texturesCreated := 1\<rparr>"

text \<open>The same renderer holding the texture of its current image.\<close>

definition loaded_renderer :: ImageRenderer where
  "loaded_renderer =
     sample_renderer\<lparr>textures_m := [Some 1 \<mapsto> Some (createTexture 0 sample_image)],
                     texturesCreated := 1\<rparr>"

text \<open>
  Calls that may follow \<open>updateImages sample_documents\<close>: another image is painted,
  the second document is closed, the first image is made current again.
\<close>

definition sample_calls :: "call list" where
  "sample_calls =
     [SetCurrent (Ptr 2 other_image), Paint,
      UpdateImages [\<lparr> doc_image = Ptr 1 sample_image \<rparr>],
      SetCurrent (Ptr 1 sample_image)]"

text \<open>A sampler whose colour depends on the texture coordinate.\<close>

definition sample_sampler :: "vec2 \<Rightarrow> vec4" where
  "sample_sampler uv = vec4 (4 * vx uv) 1 (vy uv) (1 / 2)"

section \<open>Facts about the operations\<close>

lemma find_matchImage_None: "(find (matchImage key) images = None) = (key \<notin> referenced images)"
  by (auto simp: find_None_iff referenced_def matchImage_def)

lemma dom_erase_unreferenced:
  "dom (erase_unreferenced images m) = dom m \<inter> referenced images"
  by (auto simp: erase_unreferenced_def find_matchImage_None dom_def)

lemma cached_iff: "cached r key = (\<exists>t. textures_m r key = Some (Some t))"
  by (auto simp: cached_def split: option.splits)

subsection \<open>paint\<close>

lemma paint_returns:
  "current_m r = Ptr a img \<Longrightarrow> cached r (Some a) \<Longrightarrow> \<exists>r'. paint r = Inr r'"
  by (auto simp: paint_def Let_def subscript_def cached_iff split: option.splits)

lemma paint_Inr_current:
  "paint r = Inr r' \<Longrightarrow> \<exists>a img. current_m r = Ptr a img \<and> cached r (Some a)"
  by (auto simp: paint_def Let_def subscript_def cached_iff split: option.splits shared_ptr.splits)

lemma paint_miss:
  "current_m r = Ptr a img \<Longrightarrow> \<not> cached r (Some a) \<Longrightarrow>
   \<exists>r'. paint r = Inl (NullTextureDereference, r')"
  by (auto simp: paint_def Let_def subscript_def cached_iff split: option.splits)

lemma paint_texture_ids:
  "get (current_m r) \<in> dom (textures_m r) \<Longrightarrow> texture_ids (state_of (paint r)) = texture_ids r"
  by (auto simp: paint_def Let_def subscript_def texture_ids_def fun_eq_iff
           split: option.splits shared_ptr.splits)

lemma paint_dom:
  "get (current_m r) \<in> dom (textures_m r) \<Longrightarrow> dom (textures_m (state_of (paint r))) = dom (textures_m r)"
  by (auto simp: paint_def Let_def subscript_def
           split: option.splits shared_ptr.splits)

lemma paint_other_entries:
  "key \<noteq> get (current_m r) \<Longrightarrow> textures_m (state_of (paint r)) key = textures_m r key"
  by (auto simp: paint_def Let_def subscript_def
           split: option.splits shared_ptr.splits)

lemma paint_current_entry:
  "current_m r = Ptr a img \<Longrightarrow> textures_m r (Some a) = Some (Some t) \<Longrightarrow>
   textures_m (state_of (paint r)) =
     (textures_m r)(Some a \<mapsto> Some (t\<lparr>borderColor := Some (clearColor_m r), boundUnit := None\<rparr>))"
  by (simp add: paint_def Let_def subscript_def split: option.splits)

lemma paint_null_entry:
  "current_m r = Ptr a img \<Longrightarrow> textures_m r (Some a) = Some None \<Longrightarrow>
   textures_m (state_of (paint r)) = textures_m r"
  by (simp add: paint_def Let_def subscript_def split: option.splits)

lemma paint_missing_entry:
  "current_m r = Ptr a img \<Longrightarrow> textures_m r (Some a) = None \<Longrightarrow>
   textures_m (state_of (paint r)) = (textures_m r)(Some a \<mapsto> None)"
  by (simp add: paint_def Let_def subscript_def split: option.splits)

lemma paint_null_current:
  "current_m r = Null \<Longrightarrow> textures_m (state_of (paint r)) = textures_m r"
  by (simp add: paint_def Let_def split: option.splits)

lemma paint_keeps_cached:
  "cached r key \<Longrightarrow> cached (state_of (paint r)) key"
  by (auto simp: paint_def Let_def subscript_def cached_iff
           split: option.splits shared_ptr.splits)

lemma paint_first_program:
  "program_m r = None \<Longrightarrow>
   programsCreated (state_of (paint r)) = Suc (programsCreated r) \<and>
   (\<exists>p. program_m (state_of (paint r)) = Some p
        \<and> built p = built (createProgram (programsCreated r)))"
  by (auto simp: paint_def Let_def subscript_def built_def
           split: option.splits shared_ptr.splits)

lemma paint_later_program:
  "program_m r = Some p \<Longrightarrow>
   programsCreated (state_of (paint r)) = programsCreated r \<and>
   (\<exists>p'. program_m (state_of (paint r)) = Some p' \<and> built p' = built p)"
  by (auto simp: paint_def Let_def subscript_def built_def
           split: option.splits shared_ptr.splits)

lemma paint_draw:
  assumes "paint r = Inr r'" and "current_m r = Ptr a img"
  shows "\<exists>dc. draws (glContext r') = draws (glContext r) @ [dc] \<and>
     uniform_gamma (draw_program dc) = 1 / gamma (settings_m r) \<and>
     uniform_scale (draw_program dc) =
       textureScale
         (QVector2D (real_of_int (fst (region_size (renderRegion_m r))))
                    (real_of_int (snd (region_size (renderRegion_m r)))))
         (QVector2D (real_of_int (width img) * scale (settings_m r))
                    (real_of_int (height img) * scale (settings_m r))) \<and>
     uniform_position (draw_program dc) =
       texturePosition
         (QVector2D (real_of_int (fst (region_size (renderRegion_m r))))
                    (real_of_int (snd (region_size (renderRegion_m r)))))
         (QVector2D (real_of_int (width img) * scale (settings_m r))
                    (real_of_int (height img) * scale (settings_m r)))
         (position (settings_m r))"
  using assms
  by (auto simp: paint_def Let_def subscript_def split: option.splits shared_ptr.splits)


subsection \<open>updateImages\<close>

lemma create_textures_Cons:
  assumes "create_textures (doc # rest) r = Inr r'"
  shows "\<exists>r1. create_textures rest r1 = Inr r' \<and> cached r1 (get (doc_image doc))
    \<and> (\<forall>key t. textures_m r key = Some (Some t) \<longrightarrow> textures_m r1 key = Some (Some t))
    \<and> dom (textures_m r1) = insert (get (doc_image doc)) (dom (textures_m r))"
proof (cases "cached r (get (doc_image doc))")
  case True
  then have "create_textures rest r = Inr r'"
    using assms by (auto simp: subscript_def cached_iff)
  moreover have "dom (textures_m r) = insert (get (doc_image doc)) (dom (textures_m r))"
    using True by (auto simp: cached_iff)
  ultimately show ?thesis using True by blast
next
  case False
  then have slot: "textures_m r (get (doc_image doc)) = None
                 \<or> textures_m r (get (doc_image doc)) = Some None"
    by (auto simp: cached_def split: option.splits)
  show ?thesis
  proof (cases "doc_image doc")
    case Null
    with slot assms show ?thesis by (auto simp: subscript_def)
  next
    case (Ptr a img)
    let ?r1 = "r\<lparr>textures_m := (textures_m r)(Some a \<mapsto> Some (createTexture (texturesCreated r) img)),
                 texturesCreated := Suc (texturesCreated r)\<rparr>"
    have "create_textures rest ?r1 = Inr r'"
      using slot Ptr assms by (auto simp: subscript_def)
    moreover have "cached ?r1 (get (doc_image doc))"
      using Ptr by (simp add: cached_iff)
    moreover have "\<forall>key t. textures_m r key = Some (Some t) \<longrightarrow> textures_m ?r1 key = Some (Some t)"
      using slot Ptr by auto
    moreover have "dom (textures_m ?r1) = insert (get (doc_image doc)) (dom (textures_m r))"
      using Ptr by simp
    ultimately show ?thesis by blast
  qed
qed

lemma create_textures_keeps:
  "create_textures images r = Inr r' \<Longrightarrow> textures_m r key = Some (Some t) \<Longrightarrow>
   textures_m r' key = Some (Some t)"
proof (induction images arbitrary: r)
  case Nil
  then show ?case by simp
next
  case (Cons doc rest)
  from create_textures_Cons[OF Cons.prems(1)] obtain r1
    where "create_textures rest r1 = Inr r'" and "textures_m r1 key = Some (Some t)"
    using Cons.prems(2) by blast
  then show ?case by (rule Cons.IH)
qed

lemma dom_create_textures:
  "create_textures images r = Inr r' \<Longrightarrow>
   dom (textures_m r') = dom (textures_m r) \<union> referenced images"
proof (induction images arbitrary: r)
  case Nil
  then show ?case by (simp add: referenced_def)
next
  case (Cons doc rest)
  from create_textures_Cons[OF Cons.prems] obtain r1
    where r1: "create_textures rest r1 = Inr r'"
      and d: "dom (textures_m r1) = insert (get (doc_image doc)) (dom (textures_m r))"
    by blast
  have "dom (textures_m r') = dom (textures_m r1) \<union> referenced rest"
    using r1 by (rule Cons.IH)
  then show ?case using d by (auto simp: referenced_def)
qed

lemma create_textures_cached:
  "create_textures images r = Inr r' \<Longrightarrow> doc \<in> set images \<Longrightarrow>
   cached r' (get (doc_image doc))"
proof (induction images arbitrary: r)
  case Nil
  then show ?case by simp
next
  case (Cons d rest)
  from create_textures_Cons[OF Cons.prems(1)] obtain r1
    where r1: "create_textures rest r1 = Inr r'" and c: "cached r1 (get (doc_image d))"
    by blast
  show ?case
  proof (cases "doc = d")
    case True
    then show ?thesis using c create_textures_keeps[OF r1] by (auto simp: cached_iff)
  next
    case False
    then have "doc \<in> set rest" using Cons.prems(2) by simp
    with r1 show ?thesis by (rule Cons.IH)
  qed
qed

lemma create_textures_noop:
  "\<forall>doc \<in> set images. cached r (get (doc_image doc)) \<Longrightarrow> create_textures images r = Inr r"
  by (induction images) (auto simp: cached_iff subscript_def)

lemma erase_unreferenced_noop:
  assumes "dom m \<subseteq> referenced images"
  shows "erase_unreferenced images m = m"
proof
  fix key
  show "erase_unreferenced images m key = m key"
    using assms by (cases "m key") (auto simp: erase_unreferenced_def find_matchImage_None)
qed

lemma create_textures_returns:
  "\<forall>doc \<in> set images. doc_image doc \<noteq> Null \<Longrightarrow> \<exists>r'. create_textures images r = Inr r'"
  by (induction images arbitrary: r)
     (auto simp: subscript_def Let_def split: option.splits shared_ptr.splits)

lemma updateImages_returns:
  "\<forall>doc \<in> set images. doc_image doc \<noteq> Null \<Longrightarrow> \<exists>r'. updateImages images r = Inr r'"
  unfolding updateImages_def by (rule create_textures_returns)

lemma updateImages_dom:
  "updateImages images r = Inr r' \<Longrightarrow> dom (textures_m r') = referenced images"
  unfolding updateImages_def
  by (drule dom_create_textures) (auto simp: dom_erase_unreferenced)

lemma updateImages_cached:
  "updateImages images r = Inr r' \<Longrightarrow> doc \<in> set images \<Longrightarrow> cached r' (get (doc_image doc))"
  unfolding updateImages_def by (rule create_textures_cached)

lemma updateImages_idem:
  assumes "updateImages images r = Inr r'"
  shows "updateImages images r' = Inr r'"
proof -
  have "dom (textures_m r') \<subseteq> referenced images"
    using updateImages_dom[OF assms] by simp
  then have "erase_unreferenced images (textures_m r') = textures_m r'"
    by (rule erase_unreferenced_noop)
  moreover have "\<forall>doc \<in> set images. cached r' (get (doc_image doc))"
    using updateImages_cached[OF assms] by blast
  ultimately show ?thesis
    by (simp add: updateImages_def create_textures_noop)
qed

lemma create_textures_program:
  "program_m (state_of (create_textures images r)) = program_m r \<and>
   programsCreated (state_of (create_textures images r)) = programsCreated r"
  by (induction images arbitrary: r)
     (auto simp: subscript_def Let_def split: option.splits shared_ptr.splits)

lemma updateImages_program:
  "program_m (state_of (updateImages images r)) = program_m r \<and>
   programsCreated (state_of (updateImages images r)) = programsCreated r"
  using create_textures_program[of images "r\<lparr>textures_m := erase_unreferenced images (textures_m r)\<rparr>"]
  by (simp add: updateImages_def)

subsection \<open>Sequences of calls\<close>

lemma call_step_program:
  assumes "program_m r = Some p"
  shows "programsCreated (state_of (call_step c r)) = programsCreated r \<and>
     (\<exists>p'. program_m (state_of (call_step c r)) = Some p' \<and> built p' = built p)"
proof (cases c)
  case (SetCurrent img)
  then show ?thesis using assms by (simp add: setCurrent_def)
next
  case (UpdateImages images)
  then show ?thesis using assms updateImages_program[of images r] by simp
next
  case Paint
  then show ?thesis using paint_later_program[OF assms] by simp
qed

lemma run_program:
  "program_m r = Some p \<Longrightarrow>
   programsCreated (state_of (run cs r)) = programsCreated r \<and>
   (\<exists>p'. program_m (state_of (run cs r)) = Some p' \<and> built p' = built p)"
proof (induction cs arbitrary: r p)
  case Nil
  then show ?case by simp
next
  case (Cons c cs)
  from call_step_program[OF Cons.prems, of c] obtain p'
    where n: "programsCreated (state_of (call_step c r)) = programsCreated r"
      and p': "program_m (state_of (call_step c r)) = Some p'" "built p' = built p"
    by blast
  show ?case
  proof (cases "call_step c r")
    case (Inl e)
    then show ?thesis using n p' by (cases e) auto
  next
    case (Inr r1)
    then have "program_m r1 = Some p'" "programsCreated r1 = programsCreated r"
      using n p' by simp_all
    then show ?thesis using Cons.IH[of r1 p'] Inr p'(2) by auto
  qed
qed

lemma run_keeps_cached:
  "cached r key \<Longrightarrow> list_all (keeps key) cs \<Longrightarrow> run cs r = Inr r' \<Longrightarrow> cached r' key"
proof (induction cs arbitrary: r)
  case Nil
  then show ?case by simp
next
  case (Cons c cs)
  from Cons.prems(3) obtain r1 where step: "call_step c r = Inr r1" and rest: "run cs r1 = Inr r'"
    by (auto split: sum.splits)
  have "cached r1 key"
  proof (cases c)
    case (SetCurrent img)
    then show ?thesis using step Cons.prems(1) by (auto simp: setCurrent_def cached_def)
  next
    case (UpdateImages images)
    then have "find (matchImage key) images \<noteq> None" using Cons.prems(2) by simp
    then obtain doc where "doc \<in> set images" "get (doc_image doc) = key"
      by (auto simp: find_matchImage_None referenced_def)
    then show ?thesis using updateImages_cached[of images r r1 doc] step UpdateImages by simp
  next
    case Paint
    then show ?thesis using paint_keeps_cached[OF Cons.prems(1)] step by simp
  qed
  moreover have "list_all (keeps key) cs" using Cons.prems(2) by simp
  ultimately show ?case using rest by (rule Cons.IH)
qed

section \<open>Texture and pixel format\<close>

text \<open>
  C10. An image whose channel count is not 3, whatever it is, gets the RGBA texture
  format and the RGBA pixel format; the RGB formats are chosen exactly when the channel
  count is 3.
\<close>

theorem format_rgb_only_for_three_channels:
  "(channels img \<noteq> 3 \<longrightarrow> format img = RGBAFormat \<and> pixelFormat img = RGBA)
   \<and> (format img = RGBFormat \<longleftrightarrow> channels img = 3)
   \<and> (pixelFormat img = RGB \<longleftrightarrow> channels img = 3)"
  by (simp add: format_def pixelFormat_def)

theorem format_rgb_only_for_three_channels_witness:
  "channels \<lparr> width = 2, height = 2, channels = 1, data = [] \<rparr> \<noteq> 3
   \<and> format \<lparr> width = 2, height = 2, channels = 1, data = [] \<rparr> = RGBAFormat
   \<and> pixelFormat \<lparr> width = 2, height = 2, channels = 1, data = [] \<rparr> = RGBA
   \<and> format \<lparr> width = 2, height = 2, channels = 3, data = [] \<rparr> = RGBFormat"
  using format_rgb_only_for_three_channels
          [of "\<lparr> width = 2, height = 2, channels = 1, data = [] \<rparr>"]
        format_rgb_only_for_three_channels
          [of "\<lparr> width = 2, height = 2, channels = 3, data = [] \<rparr>"]
  by simp

section \<open>The texture map after updateImages\<close>

text \<open>
  C1. Whenever \<open>updateImages images\<close> returns, the keys of the texture map are exactly
  the image identities that some document of \<open>images\<close> refers to: every image referred
  to has an entry, and the entry of every other image is gone. It does return when no
  document has a null image.
\<close>

theorem updateImages_keys_are_referenced_images:
  "(updateImages images r = Inr r' \<longrightarrow>
      dom (textures_m r') = (\<lambda>doc. get (doc_image doc)) ` set images)
   \<and> ((\<forall>doc \<in> set images. doc_image doc \<noteq> Null) \<longrightarrow> (\<exists>r''. updateImages images r = Inr r''))"
  using updateImages_dom[of images r r'] updateImages_returns[of images r]
  by (simp add: referenced_def)

theorem updateImages_keys_are_referenced_images_witness:
  "updateImages sample_documents stale_renderer
     = Inr (state_of (updateImages sample_documents stale_renderer))
   \<and> map doc_image sample_documents = [Ptr 1 sample_image, Ptr 2 other_image]
   \<and> dom (textures_m stale_renderer) = {Some 7}
   \<and> dom (textures_m (state_of (updateImages sample_documents stale_renderer)))
       = {Some 1, Some 2}"
  using updateImages_keys_are_referenced_images
          [of sample_documents stale_renderer
              "state_of (updateImages sample_documents stale_renderer)"]
  by (auto simp: updateImages_def sample_documents_def stale_renderer_def sample_renderer_def
        subscript_def erase_unreferenced_def matchImage_def)

text \<open>
  C3. When \<open>updateImages images\<close> has returned, a second call with the same list
  returns the very same renderer: it creates no texture (the count of textures created
  stays) and every image of the list is bound to the texture object it was bound to.
\<close>

theorem updateImages_twice_no_upload:
  assumes "updateImages images r = Inr r'"
  shows "updateImages images r' = Inr r'
    \<and> texturesCreated (state_of (updateImages images r')) = texturesCreated r'
    \<and> (\<forall>doc \<in> set images.
          textures_m (state_of (updateImages images r')) (get (doc_image doc))
            = textures_m r' (get (doc_image doc)))"
  using updateImages_idem[OF assms] by simp

theorem updateImages_twice_no_upload_witness:
  "updateImages sample_documents stale_renderer
     = Inr (state_of (updateImages sample_documents stale_renderer))
   \<and> texturesCreated stale_renderer = 1
   \<and> texturesCreated (state_of (updateImages sample_documents stale_renderer)) = 3
   \<and> texturesCreated (state_of (updateImages sample_documents
        (state_of (updateImages sample_documents stale_renderer)))) = 3"
proof -
  have first: "updateImages sample_documents stale_renderer
     = Inr (state_of (updateImages sample_documents stale_renderer))"
    by (simp add: updateImages_def sample_documents_def stale_renderer_def sample_renderer_def
        subscript_def erase_unreferenced_def matchImage_def)
  have "texturesCreated (state_of (updateImages sample_documents stale_renderer)) = 3"
    by (simp add: updateImages_def sample_documents_def stale_renderer_def sample_renderer_def
        subscript_def erase_unreferenced_def matchImage_def)
  then show ?thesis
    using first updateImages_twice_no_upload[OF first]
    by (simp add: stale_renderer_def)
qed

section \<open>paint and the texture map\<close>

text \<open>
  C2, as stated, fails. The lookup in \<open>paint\<close> is \<^verbatim>\<open>operator[]\<close>: when the current
  image has no entry, it inserts a null one before the null texture is dereferenced.
  In \<open>sample_renderer\<close> the map is empty and the current image is at address 1; at the
  fault the map has the key of that image.
\<close>

theorem paint_inserts_missing_entry_counterexample:
  "dom (textures_m (state_of (paint sample_renderer))) \<noteq> dom (textures_m sample_renderer)
   \<and> dom (textures_m sample_renderer) = {}
   \<and> dom (textures_m (state_of (paint sample_renderer))) = {Some 1}
   \<and> paint sample_renderer = Inl (NullTextureDereference, state_of (paint sample_renderer))"
  by (simp add: paint_def sample_renderer_def subscript_def Let_def)

text \<open>
  C2, amended. In every renderer state whose current image has an entry in the texture
  map, \<open>paint\<close> leaves the map with the same keys, each bound to the same texture object
  (or null) as before, and does not touch the entry of any other image. The texture of
  the current image, when it is not null, is the texture it was except for its border
  colour, now the clear colour, and its texture unit, released; a null entry of the
  current image stays as it is. \<open>setCurrent\<close> leaves the map as it is. When the current
  image is not null and has no entry, the lookup of \<open>paint\<close> inserts a null entry for it
  and changes nothing else in the map.
\<close>

theorem paint_keeps_texture_map:
  "(get (current_m r) \<in> dom (textures_m r) \<longrightarrow>
      dom (textures_m (state_of (paint r))) = dom (textures_m r)
      \<and> texture_ids (state_of (paint r)) = texture_ids r
      \<and> (\<forall>key. key \<noteq> get (current_m r) \<longrightarrow>
            textures_m (state_of (paint r)) key = textures_m r key))
   \<and> (current_m r = Ptr a im \<and> textures_m r (Some a) = Some (Some t) \<longrightarrow>
        textures_m (state_of (paint r)) =
          (textures_m r)
            (Some a \<mapsto> Some (t\<lparr>borderColor := Some (clearColor_m r), boundUnit := None\<rparr>)))
   \<and> (current_m r = Ptr a im \<and> textures_m r (Some a) = Some None \<longrightarrow>
        textures_m (state_of (paint r)) = textures_m r)
   \<and> textures_m (setCurrent img r) = textures_m r
   \<and> (current_m r = Ptr a im \<and> textures_m r (Some a) = None \<longrightarrow>
        textures_m (state_of (paint r)) = (textures_m r)(Some a \<mapsto> None))"
proof -
  have "dom (textures_m (state_of (paint r))) = dom (textures_m r)
      \<and> texture_ids (state_of (paint r)) = texture_ids r
      \<and> (\<forall>key. key \<noteq> get (current_m r) \<longrightarrow>
            textures_m (state_of (paint r)) key = textures_m r key)"
    if h: "get (current_m r) \<in> dom (textures_m r)"
    using paint_dom[OF h] paint_texture_ids[OF h] paint_other_entries[of _ r] by simp
  moreover have "textures_m (state_of (paint r)) =
          (textures_m r)
            (Some a \<mapsto> Some (t\<lparr>borderColor := Some (clearColor_m r), boundUnit := None\<rparr>))"
    if "current_m r = Ptr a im" "textures_m r (Some a) = Some (Some t)"
    using that by (rule paint_current_entry)
  moreover have "textures_m (state_of (paint r)) = textures_m r"
    if "current_m r = Ptr a im" "textures_m r (Some a) = Some None"
    using that by (rule paint_null_entry)
  moreover have "textures_m (setCurrent img r) = textures_m r"
    by (simp add: setCurrent_def)
  moreover have "textures_m (state_of (paint r)) = (textures_m r)(Some a \<mapsto> None)"
    if "current_m r = Ptr a im" "textures_m r (Some a) = None"
    using that by (rule paint_missing_entry)
  ultimately show ?thesis by blast
qed

theorem paint_keeps_texture_map_witness:
  "get (current_m loaded_renderer) \<in> dom (textures_m loaded_renderer)
   \<and> current_m loaded_renderer = Ptr 1 sample_image
   \<and> textures_m loaded_renderer (Some 1) = Some (Some (createTexture 0 sample_image))
   \<and> paint loaded_renderer = Inr (state_of (paint loaded_renderer))
   \<and> dom (textures_m (state_of (paint loaded_renderer))) = {Some 1}
   \<and> texture_ids (state_of (paint loaded_renderer)) = texture_ids loaded_renderer
   \<and> textures_m (state_of (paint loaded_renderer)) =
        [Some 1 \<mapsto> Some ((createTexture 0 sample_image)
            \<lparr>borderColor := Some \<lparr> red = 0, green = 0, blue = 0 \<rparr>, boundUnit := None\<rparr>)]
   \<and> current_m sample_renderer = Ptr 1 sample_image
   \<and> textures_m sample_renderer (Some 1) = None
   \<and> textures_m (state_of (paint sample_renderer)) = [Some 1 \<mapsto> None]
   \<and> textures_m (state_of (paint (sample_renderer\<lparr>textures_m := [Some 1 \<mapsto> None]\<rparr>)))
       = [Some 1 \<mapsto> None]"
proof -
  have h: "get (current_m loaded_renderer) \<in> dom (textures_m loaded_renderer)"
    and c: "current_m loaded_renderer = Ptr 1 sample_image"
    and e: "textures_m loaded_renderer (Some 1) = Some (Some (createTexture 0 sample_image))"
    and m: "textures_m loaded_renderer = [Some 1 \<mapsto> Some (createTexture 0 sample_image)]"
    and k: "clearColor_m loaded_renderer = \<lparr> red = 0, green = 0, blue = 0 \<rparr>"
    by (simp_all add: loaded_renderer_def sample_renderer_def)
  have p: "paint loaded_renderer = Inr (state_of (paint loaded_renderer))"
    by (simp add: paint_def loaded_renderer_def sample_renderer_def subscript_def Let_def)
  have c0: "current_m sample_renderer = Ptr 1 sample_image"
    and e0: "textures_m sample_renderer (Some 1) = None"
    and m0: "textures_m sample_renderer = Map.empty"
    by (simp_all add: sample_renderer_def)
  let ?n = "sample_renderer\<lparr>textures_m := [Some 1 \<mapsto> None]\<rparr>"
  have c1: "current_m ?n = Ptr 1 sample_image"
    and e1: "textures_m ?n (Some 1) = Some None"
    and m1: "textures_m ?n = [Some 1 \<mapsto> None]"
    by (simp_all add: sample_renderer_def)
  show ?thesis
    using h c e m k p c0 e0 m0 c1 e1 m1
      paint_keeps_texture_map
        [of loaded_renderer 1 sample_image "createTexture 0 sample_image" "Ptr 1 sample_image"]
      paint_keeps_texture_map
        [of sample_renderer 1 sample_image "createTexture 0 sample_image" "Ptr 1 sample_image"]
      paint_keeps_texture_map
        [of ?n 1 sample_image "createTexture 0 sample_image" "Ptr 1 sample_image"]
    by simp
qed

text \<open>
  C8. Once \<open>updateImages\<close> has returned for a list with a document of the image at
  address \<open>a\<close>, and as long as every later \<open>updateImages\<close> still has such a document,
  the map binds that image to a texture that is not null, and \<open>paint\<close> with that image
  current returns. Painting an image that has no texture, its entry absent or null, is
  not handled: it ends in the null dereference.
\<close>

theorem paint_finds_texture_after_updateImages:
  "(updateImages images r = Inr r1 \<and> doc \<in> set images \<and> get (doc_image doc) = Some a
      \<and> list_all (keeps (Some a)) cs \<and> run cs r1 = Inr r2 \<and> current_m r2 = Ptr a img
    \<longrightarrow> (\<exists>t. textures_m r2 (Some a) = Some (Some t)) \<and> (\<exists>r3. paint r2 = Inr r3))
   \<and> (current_m q = Ptr b im \<and> \<not> cached q (Some b)
    \<longrightarrow> (\<exists>q'. paint q = Inl (NullTextureDereference, q')))"
proof -
  have "(\<exists>t. textures_m r2 (Some a) = Some (Some t)) \<and> (\<exists>r3. paint r2 = Inr r3)"
    if u: "updateImages images r = Inr r1" and d: "doc \<in> set images"
      and k: "get (doc_image doc) = Some a" and cs: "list_all (keeps (Some a)) cs"
      and run: "run cs r1 = Inr r2" and cur: "current_m r2 = Ptr a img"
  proof -
    have "cached r1 (Some a)" using updateImages_cached[OF u d] k by simp
    then have c: "cached r2 (Some a)" using cs run by (rule run_keeps_cached)
    then show ?thesis using paint_returns[OF cur c] by (simp add: cached_iff)
  qed
  moreover have "\<exists>q'. paint q = Inl (NullTextureDereference, q')"
    if "current_m q = Ptr b im" "\<not> cached q (Some b)"
    using that by (rule paint_miss)
  ultimately show ?thesis by blast
qed

theorem paint_finds_texture_after_updateImages_witness:
  "updateImages sample_documents sample_renderer
     = Inr (state_of (updateImages sample_documents sample_renderer))
   \<and> list_all (keeps (Some 1)) sample_calls
   \<and> run sample_calls (state_of (updateImages sample_documents sample_renderer))
     = Inr (state_of (run sample_calls (state_of (updateImages sample_documents sample_renderer))))
   \<and> current_m (state_of (run sample_calls (state_of (updateImages sample_documents sample_renderer))))
     = Ptr 1 sample_image
   \<and> paint (state_of (run sample_calls (state_of (updateImages sample_documents sample_renderer))))
     = Inr (state_of (paint (state_of (run sample_calls
              (state_of (updateImages sample_documents sample_renderer))))))
   \<and> current_m sample_renderer = Ptr 1 sample_image
   \<and> \<not> cached sample_renderer (Some 1)
   \<and> paint sample_renderer = Inl (NullTextureDereference, state_of (paint sample_renderer))"
proof -
  let ?r1 = "state_of (updateImages sample_documents sample_renderer)"
  let ?r2 = "state_of (run sample_calls ?r1)"
  have u: "updateImages sample_documents sample_renderer = Inr ?r1"
    by (simp add: updateImages_def sample_documents_def sample_renderer_def
        subscript_def erase_unreferenced_def matchImage_def)
  have d: "\<lparr> doc_image = Ptr 1 sample_image \<rparr> \<in> set sample_documents"
    by (simp add: sample_documents_def)
  have k: "list_all (keeps (Some 1)) sample_calls"
    by (simp add: sample_calls_def matchImage_def)
  have run: "run sample_calls ?r1 = Inr ?r2"
    by (simp add: sample_calls_def updateImages_def sample_documents_def sample_renderer_def
        subscript_def erase_unreferenced_def matchImage_def paint_def Let_def setCurrent_def)
  have cur: "current_m ?r2 = Ptr 1 sample_image"
    by (simp add: sample_calls_def updateImages_def sample_documents_def sample_renderer_def
        subscript_def erase_unreferenced_def matchImage_def paint_def Let_def setCurrent_def)
  have c0: "current_m sample_renderer = Ptr 1 sample_image"
    and m0: "\<not> cached sample_renderer (Some 1)"
    by (simp_all add: sample_renderer_def cached_def)
  have "(\<exists>r3. paint ?r2 = Inr r3)
      \<and> (\<exists>q'. paint sample_renderer = Inl (NullTextureDereference, q'))"
    using u d k run cur c0 m0
      paint_finds_texture_after_updateImages
        [of sample_documents sample_renderer ?r1 "\<lparr> doc_image = Ptr 1 sample_image \<rparr>" 1
            sample_calls ?r2 sample_image sample_renderer 1 sample_image]
    by simp
  then have "paint ?r2 = Inr (state_of (paint ?r2))"
    and "paint sample_renderer = Inl (NullTextureDereference, state_of (paint sample_renderer))"
    by auto
  then show ?thesis using u k run cur c0 m0 by simp
qed

section \<open>The uniforms\<close>

text \<open>
  C4. \<open>texturePosition regionSize imageSize pan\<close> is, in each coordinate, half the
  difference of region and image size plus the pan term, divided by the region size,
  where the horizontal pan is negated and the vertical pan is not. For the pan
  \<open>(0, 0)\<close> this is \<open>(regionSize - imageSize) / (2 * regionSize)\<close>.
\<close>

theorem texturePosition_formula:
  "texturePosition regionSize imageSize pan =
     QVector2D (((xp regionSize - xp imageSize) / 2 + (- xp pan)) / xp regionSize)
               (((yp regionSize - yp imageSize) / 2 + yp pan) / yp regionSize)
   \<and> texturePosition regionSize imageSize (QVector2D 0 0) =
     QVector2D ((xp regionSize - xp imageSize) / (2 * xp regionSize))
               ((yp regionSize - yp imageSize) / (2 * yp regionSize))"
  by (simp add: texturePosition_def vec_div_def vec_plus_def vec_div_scalar_def vec_minus_def)

theorem texturePosition_formula_witness:
  "texturePosition (QVector2D 800 600) (QVector2D 400 300) (QVector2D 40 60)
     = QVector2D (1 / 5) (7 / 20)
   \<and> texturePosition (QVector2D 800 600) (QVector2D 400 300) (QVector2D 0 0)
     = QVector2D (1 / 4) (1 / 4)"
  using texturePosition_formula[of "QVector2D 800 600" "QVector2D 400 300" "QVector2D 40 60"]
  by simp

text \<open>
  C5. \<open>textureScale regionSize imageSize\<close> is the image size divided by the region size
  in each coordinate. The scale uniform of the draw call of a \<open>paint\<close> that returns is
  \<open>textureScale\<close> of the region size and of the image size
  \<open>(width * scale, height * scale)\<close>, with the width and height of the current image
  and the scale of the settings. For a region of 800 by 600 and an image of 400 by 600 at
  scale 1 the result is \<open>(0.5, 1)\<close>.
\<close>

theorem textureScale_is_quotient:
  "textureScale regionSize imageSize =
     QVector2D (xp imageSize / xp regionSize) (yp imageSize / yp regionSize)
   \<and> (paint r = Inr r' \<and> current_m r = Ptr a img \<longrightarrow>
        uniform_scale (draw_program (last (draws (glContext r')))) =
          textureScale
            (QVector2D (real_of_int (fst (region_size (renderRegion_m r))))
                       (real_of_int (snd (region_size (renderRegion_m r)))))
            (QVector2D (real_of_int (width img) * scale (settings_m r))
                       (real_of_int (height img) * scale (settings_m r))))
   \<and> textureScale (QVector2D 800 600) (QVector2D (400 * 1) (600 * 1)) = QVector2D 0.5 1"
proof -
  have "uniform_scale (draw_program (last (draws (glContext r')))) =
          textureScale
            (QVector2D (real_of_int (fst (region_size (renderRegion_m r))))
                       (real_of_int (snd (region_size (renderRegion_m r)))))
            (QVector2D (real_of_int (width img) * scale (settings_m r))
                       (real_of_int (height img) * scale (settings_m r)))"
    if "paint r = Inr r'" "current_m r = Ptr a img"
    using paint_draw[OF that] by auto
  then show ?thesis by (simp add: textureScale_def vec_div_def)
qed

theorem textureScale_is_quotient_witness:
  "paint loaded_renderer = Inr (state_of (paint loaded_renderer))
   \<and> current_m loaded_renderer = Ptr 1 sample_image
   \<and> region_size (renderRegion_m loaded_renderer) = (800, 600)
   \<and> (width sample_image, height sample_image) = (400, 600)
   \<and> scale (settings_m loaded_renderer) = 1
   \<and> uniform_scale (draw_program (last (draws (glContext (state_of (paint loaded_renderer))))))
       = QVector2D 0.5 1"
proof -
  have p: "paint loaded_renderer = Inr (state_of (paint loaded_renderer))"
    by (simp add: paint_def loaded_renderer_def sample_renderer_def subscript_def Let_def)
  have c: "current_m loaded_renderer = Ptr 1 sample_image"
    by (simp add: loaded_renderer_def sample_renderer_def)
  show ?thesis
    using p c textureScale_is_quotient
                [of "QVector2D 800 600" "QVector2D 400 600" loaded_renderer
                    "state_of (paint loaded_renderer)" 1 sample_image]
    by (simp add: loaded_renderer_def sample_renderer_def sample_image_def)
qed

text \<open>
  C6. When \<open>paint\<close> returns and the gamma of the settings is positive, the gamma uniform
  of its draw call is \<open>1 / gamma\<close>: 0.5 for the gamma 2 and 1 for the gamma 1.
\<close>

theorem gamma_uniform_is_reciprocal:
  assumes "paint r = Inr r'" and "0 < gamma (settings_m r)"
  shows "uniform_gamma (draw_program (last (draws (glContext r')))) = 1 / gamma (settings_m r)
    \<and> (gamma (settings_m r) = 2 \<longrightarrow>
          uniform_gamma (draw_program (last (draws (glContext r')))) = 0.5)
    \<and> (gamma (settings_m r) = 1 \<longrightarrow>
          uniform_gamma (draw_program (last (draws (glContext r')))) = 1)"
proof -
  from paint_Inr_current[OF assms(1)] obtain a img where "current_m r = Ptr a img" by blast
  from paint_draw[OF assms(1) this] show ?thesis by auto
qed

theorem gamma_uniform_is_reciprocal_witness:
  "paint loaded_renderer = Inr (state_of (paint loaded_renderer))
   \<and> gamma (settings_m loaded_renderer) = 2
   \<and> uniform_gamma (draw_program (last (draws (glContext (state_of (paint loaded_renderer))))))
       = 0.5"
proof -
  have p: "paint loaded_renderer = Inr (state_of (paint loaded_renderer))"
    by (simp add: paint_def loaded_renderer_def sample_renderer_def subscript_def Let_def)
  have g: "gamma (settings_m loaded_renderer) = 2"
    by (simp add: loaded_renderer_def sample_renderer_def)
  have "(0::real) < gamma (settings_m loaded_renderer)" using g by simp
  from gamma_uniform_is_reciprocal[OF p this] show ?thesis using p g by simp
qed

section \<open>The shader program\<close>

text \<open>
  C7. On a renderer that has no program yet, the first \<open>paint\<close> creates the program:
  a new object with the vertex and the fragment shader compiled and attached, the
  attribute \<^verbatim>\<open>vertices\<close> bound to location 0, and linked. That is the only creation:
  after that \<open>paint\<close> and after any calls that follow it, whether they return or end in
  a fault, exactly one more program has been created than before, and the renderer's
  program is still the object that the first \<open>paint\<close> made, with the same shaders,
  attribute location and link state.
\<close>

theorem shader_program_created_once:
  assumes "program_m r = None"
  shows "programsCreated (state_of (paint r)) = Suc (programsCreated r)
    \<and> map_option programId (program_m (state_of (paint r))) = Some (programsCreated r)
    \<and> map_option built (program_m (state_of (paint r)))
        = Some (programsCreated r, [Vertex, Fragment], [(''vertices'', 0)], True)
    \<and> programsCreated (state_of (run (Paint # cs) r)) = Suc (programsCreated r)
    \<and> map_option programId (program_m (state_of (run (Paint # cs) r))) = Some (programsCreated r)
    \<and> map_option built (program_m (state_of (run (Paint # cs) r)))
        = Some (programsCreated r, [Vertex, Fragment], [(''vertices'', 0)], True)"
proof -
  let ?b = "(programsCreated r, [Vertex, Fragment], [(''vertices'', 0)], True)"
  from paint_first_program[OF assms] obtain p
    where n: "programsCreated (state_of (paint r)) = Suc (programsCreated r)"
      and p: "program_m (state_of (paint r)) = Some p"
      and "built p = built (createProgram (programsCreated r))"
    by blast
  then have b: "built p = ?b"
    by (simp add: built_def createProgram_def)
  then have i: "programId p = programsCreated r"
    by (simp add: built_def)
  have first: "programsCreated (state_of (paint r)) = Suc (programsCreated r)
    \<and> map_option programId (program_m (state_of (paint r))) = Some (programsCreated r)
    \<and> map_option built (program_m (state_of (paint r))) = Some ?b"
    using n p b i by simp
  have "programsCreated (state_of (run (Paint # cs) r)) = Suc (programsCreated r)
    \<and> map_option programId (program_m (state_of (run (Paint # cs) r))) = Some (programsCreated r)
    \<and> map_option built (program_m (state_of (run (Paint # cs) r))) = Some ?b"
  proof (cases "paint r")
    case (Inl e)
    then show ?thesis using first by (cases e) auto
  next
    case (Inr r1)
    then have r1: "program_m r1 = Some p" "programsCreated r1 = Suc (programsCreated r)"
      using n p by simp_all
    from run_program[OF r1(1), of cs] obtain p'
      where "programsCreated (state_of (run cs r1)) = programsCreated r1"
        and "program_m (state_of (run cs r1)) = Some p'" and "built p' = built p"
      by blast
    moreover from this b have "programId p' = programsCreated r"
      by (simp add: built_def)
    ultimately show ?thesis using Inr r1(2) b by simp
  qed
  with first show ?thesis by simp
qed

theorem shader_program_created_once_witness:
  "program_m loaded_renderer = None
   \<and> programsCreated loaded_renderer = 0
   \<and> run [Paint, Paint, Paint] loaded_renderer
       = Inr (state_of (run [Paint, Paint, Paint] loaded_renderer))
   \<and> programsCreated (state_of (run [Paint, Paint, Paint] loaded_renderer)) = 1
   \<and> map_option programId (program_m (state_of (run [Paint, Paint, Paint] loaded_renderer)))
       = Some 0
   \<and> map_option built (program_m (state_of (run [Paint, Paint, Paint] loaded_renderer)))
       = Some (0, [Vertex, Fragment], [(''vertices'', 0)], True)"
proof -
  have h: "program_m loaded_renderer = None"
    by (simp add: loaded_renderer_def sample_renderer_def)
  have n: "programsCreated loaded_renderer = 0"
    by (simp add: loaded_renderer_def sample_renderer_def)
  have "run [Paint, Paint, Paint] loaded_renderer
       = Inr (state_of (run [Paint, Paint, Paint] loaded_renderer))"
    by (simp add: paint_def loaded_renderer_def sample_renderer_def subscript_def Let_def)
  then show ?thesis
    using h n shader_program_created_once[OF h, of "[Paint, Paint]"] by simp
qed

section \<open>The shaders\<close>

text \<open>
  C9. The vertex shader maps a vertex position to \<open>coords\<close> by the affine map that
  takes the interval from -1 to 1 onto the interval from 0 to 1; the four vertices
  drawn get the corners of the unit square. The fragment shader samples the texture at
  \<open>(coords - position) / scale\<close> and outputs the sample with each of its three colour
  channels raised to the power of the gamma uniform and its alpha channel as sampled.
\<close>

theorem shader_samples_and_applies_gamma:
  "snd (vertex_main v) = vec2 ((vx v + 1) / 2) ((vy v + 1) / 2)
   \<and> (- 1 \<le> vx v \<and> vx v \<le> 1 \<and> - 1 \<le> vy v \<and> vy v \<le> 1 \<longrightarrow>
        0 \<le> vx (snd (vertex_main v)) \<and> vx (snd (vertex_main v)) \<le> 1
        \<and> 0 \<le> vy (snd (vertex_main v)) \<and> vy (snd (vertex_main v)) \<le> 1)
   \<and> map (\<lambda>v. snd (vertex_main v)) (drawn_vertices 0 4 vertexData)
        = [vec2 0 0, vec2 1 0, vec2 0 1, vec2 1 1]
   \<and> (tex (vec2 ((vx coords - vx position_u) / vx scale_u)
                 ((vy coords - vy position_u) / vy scale_u)) = vec4 cr cg cb ca \<longrightarrow>
        fragment_main tex position_u scale_u gamma_u coords
          = vec4 (cr powr gamma_u) (cg powr gamma_u) (cb powr gamma_u) ca)"
proof -
  have remap: "snd (vertex_main v) = vec2 ((vx v + 1) / 2) ((vy v + 1) / 2)"
    by (simp add: vertex_main_def vec2_plus_scalar_def vec2_times_scalar_def add_divide_distrib)
  have quad: "map (\<lambda>v. snd (vertex_main v)) (drawn_vertices 0 4 vertexData)
        = [vec2 0 0, vec2 1 0, vec2 0 1, vec2 1 1]"
    by (simp add: drawn_vertices_def vertexData_def vertex_main_def vec2_plus_scalar_def
          vec2_times_scalar_def)
  have frag: "fragment_main tex position_u scale_u gamma_u coords
          = vec4 (cr powr gamma_u) (cg powr gamma_u) (cb powr gamma_u) ca"
    if "tex (vec2 ((vx coords - vx position_u) / vx scale_u)
                 ((vy coords - vy position_u) / vy scale_u)) = vec4 cr cg cb ca"
    using that by (simp add: fragment_main_def vec2_div_def vec2_minus_def)
  show ?thesis using remap quad frag by simp
qed

theorem shader_samples_and_applies_gamma_witness:
  "snd (vertex_main (vec2 1 (- 1))) = vec2 1 0
   \<and> sample_sampler (vec2 ((1 - 1 / 2) / (1 / 2)) ((0 - 0) / 1)) = vec4 4 1 0 (1 / 2)
   \<and> fragment_main sample_sampler (vec2 (1 / 2) 0) (vec2 (1 / 2) 1) (1 / 2) (vec2 1 0)
       = vec4 2 1 0 (1 / 2)"
  using shader_samples_and_applies_gamma
          [of "vec2 1 (- 1)" sample_sampler "vec2 1 0" "vec2 (1 / 2) 0" "vec2 (1 / 2) 1"
              4 1 0 "1 / 2" "1 / 2"]
  by (simp add: sample_sampler_def powr_half_sqrt)

end
